theory Spec2Isabelle
  imports Main
begin

section \<open>Python strings\<close>

text \<open>
  A Python \<^verbatim>\<open>str\<close> is a sequence of Unicode code points. The replies of the bot contain
  Chinese text and emoji, and \<^verbatim>\<open>strip\<close>, \<^verbatim>\<open>upper\<close>, \<^verbatim>\<open>split\<close> and \<^verbatim>\<open>len\<close> all count code
  points, so a string is modelled as a list of code points (natural numbers), not as a list
  of bytes. ASCII literals are written with \<open>str\<close>; the other literals of \<^verbatim>\<open>app.py\<close> are
  written out code point by code point.
\<close>

type_synonym pystr = "nat list"

definition str :: "string \<Rightarrow> pystr" where
  "str s = map of_char s"

definition NL :: nat where
  "NL = 10"

text \<open>
  \<^verbatim>\<open>str.isspace\<close> for one code point: the characters that \<^verbatim>\<open>str.strip()\<close> without
  arguments removes (the Unicode white space and the separators FS, GS, RS, US).
\<close>

definition isspace :: "nat \<Rightarrow> bool" where
  "isspace c \<longleftrightarrow>
     (9 \<le> c \<and> c \<le> 13) \<or> (28 \<le> c \<and> c \<le> 32) \<or> c = 0x85 \<or> c = 0xA0 \<or> c = 0x1680 \<or>
     (0x2000 \<le> c \<and> c \<le> 0x200A) \<or> c = 0x2028 \<or> c = 0x2029 \<or> c = 0x202F \<or>
     c = 0x205F \<or> c = 0x3000"

text \<open>\<^verbatim>\<open>s.strip()\<close>: leading and trailing white space removed.\<close>

definition strip :: "pystr \<Rightarrow> pystr" where
  "strip s = rev (dropWhile isspace (rev (dropWhile isspace s)))"

text \<open>
  \<^verbatim>\<open>s.split('\n')\<close>: the pieces between line feeds; always at least one piece, and
  \<open>n\<close> line feeds give \<open>n + 1\<close> pieces.
\<close>

fun split_nl :: "pystr \<Rightarrow> pystr list" where
  "split_nl [] = [[]]"
| "split_nl (c # cs) =
     (if c = NL then [] # split_nl cs
      else (case split_nl cs of [] \<Rightarrow> [[c]] | l # ls \<Rightarrow> (c # l) # ls))"

text \<open>\<^verbatim>\<open>sep.join(xs)\<close>.\<close>

fun join :: "pystr \<Rightarrow> pystr list \<Rightarrow> pystr" where
  "join sep [] = []"
| "join sep [x] = x"
| "join sep (x # y # ys) = x @ sep @ join sep (y # ys)"

text \<open>
  \<^verbatim>\<open>s.upper()\<close> maps every code point to its full Unicode upper case, which may be
  several code points. On ASCII it turns \<^verbatim>\<open>a\<close>..\<^verbatim>\<open>z\<close> into \<^verbatim>\<open>A\<close>..\<^verbatim>\<open>Z\<close> and leaves the rest
  alone. The table for the code points from 128 on belongs to the Python runtime, not to
  this program: it is the parameter \<open>U\<close>.
\<close>

definition upper_cp :: "(nat \<Rightarrow> pystr) \<Rightarrow> nat \<Rightarrow> pystr" where
  "upper_cp U c =
     (if 97 \<le> c \<and> c \<le> 122 then [c - 32] else if c < 128 then [c] else U c)"

definition upper :: "(nat \<Rightarrow> pystr) \<Rightarrow> pystr \<Rightarrow> pystr" where
  "upper U s = concat (map (upper_cp U) s)"

text \<open>
  \<^verbatim>\<open>re.fullmatch(r'^[A-Z]{4}$', s)\<close> as a truth value: the whole of \<open>s\<close> is four code
  points, each in the range \<^verbatim>\<open>A\<close>..\<^verbatim>\<open>Z\<close> (65..90). No flag is given, so the class matches
  these 26 code points only.
\<close>

definition is_AZ :: "nat \<Rightarrow> bool" where
  "is_AZ c \<longleftrightarrow> 65 \<le> c \<and> c \<le> 90"

definition re_fullmatch_icao :: "pystr \<Rightarrow> bool" where
  "re_fullmatch_icao s \<longleftrightarrow> length s = 4 \<and> list_all is_AZ s"

text \<open>Truth value of a Python string, and of a value that is a string or \<^verbatim>\<open>None\<close>.\<close>

definition truthy :: "pystr \<Rightarrow> bool" where
  "truthy s \<longleftrightarrow> s \<noteq> []"

fun truthy_opt :: "pystr option \<Rightarrow> bool" where
  "truthy_opt None = False"
| "truthy_opt (Some s) = truthy s"

section \<open>The outside world\<close>

text \<open>
  One call of \<^verbatim>\<open>requests.get(url, headers=..., timeout=...)\<close>. It either raises (time-out,
  DNS failure, refused connection, ...: an exception that is not an \<^verbatim>\<open>HTTPError\<close>, of
  which the program uses the class name only), or returns a response with a status code
  and a decoded body.
\<close>

record request =
  url :: pystr
  headers :: "(pystr \<times> pystr) list"
  timeout :: int

record response =
  status_code :: int
  resp_text :: pystr

datatype http_outcome = Raises pystr | Responds response

text \<open>
  The exceptions that can leave the \<^verbatim>\<open>try\<close> block of \<^verbatim>\<open>get_aviation_weather\<close>:
  the \<^verbatim>\<open>HTTPError\<close> of \<^verbatim>\<open>raise_for_status\<close>, carrying the response, and any other
  exception, carrying its class name.
\<close>

datatype exn = HTTPError response | OtherException pystr

text \<open>What the program does to the outside, in order. Console output is not recorded.\<close>

datatype effect = HttpGet request | ReplyMessage pystr pystr

text \<open>
  The environment of one run: the answers of the weather mirror, the upper-case table of
  the runtime beyond ASCII, and the chat platform: the reply API (\<open>None\<close> when the call returns,
  \<open>Some n\<close> when it raises an exception of class \<open>n\<close>), the signature check of the SDK
  for a body and a signature under the configured channel secret, and the SDK's parser of
  the event envelope (\<open>Inl n\<close> when it raises an exception of class \<open>n\<close>). The events of
  an envelope are text-message events, with a reply token and a text, or anything else.
\<close>

record event =
  reply_token :: pystr
  message_text :: pystr

datatype webhook_event = TextMessageEvent event | OtherEvent

record world =
  http :: "request \<Rightarrow> http_outcome"
  unicode_upper :: "nat \<Rightarrow> pystr"
  reply_api_raises :: "pystr \<Rightarrow> pystr \<Rightarrow> pystr option"
  signature_valid :: "pystr \<Rightarrow> pystr \<Rightarrow> bool"
  parse_events :: "pystr \<Rightarrow> pystr + webhook_event list"

section \<open>get_aviation_weather\<close>

definition requests_get :: "world \<Rightarrow> request \<Rightarrow> exn + response" where
  "requests_get W r = (case http W r of Raises n \<Rightarrow> Inl (OtherException n) | Responds resp \<Rightarrow> Inr resp)"

text \<open>\<^verbatim>\<open>Response.raise_for_status()\<close>: raises for the 4xx and 5xx status codes.\<close>

definition raise_for_status :: "response \<Rightarrow> exn + unit" where
  "raise_for_status resp =
     (if 400 \<le> status_code resp \<and> status_code resp < 600 then Inl (HTTPError resp) else Inr ())"

definition METAR_URL :: "pystr \<Rightarrow> pystr" where
  "METAR_URL icao_code =
     str ''https://tgftp.nws.noaa.gov/data/observations/metar/stations/'' @ icao_code @ str ''.TXT''"

definition TAF_URL :: "pystr \<Rightarrow> pystr" where
  "TAF_URL icao_code =
     str ''https://tgftp.nws.noaa.gov/data/forecasts/taf/stations/'' @ icao_code @ str ''.TXT''"

definition user_agent_headers :: "(pystr \<times> pystr) list" where
  "user_agent_headers = [(str ''User-Agent'', str ''AviationWeatherBot (Python Requests)'')]"

definition metar_request :: "pystr \<Rightarrow> request" where
  "metar_request icao_code = \<lparr>url = METAR_URL icao_code, headers = user_agent_headers, timeout = 10\<rparr>"

definition taf_request :: "pystr \<Rightarrow> request" where
  "taf_request icao_code = \<lparr>url = TAF_URL icao_code, headers = user_agent_headers, timeout = 10\<rparr>"

text \<open>
  \<^verbatim>\<open>lines = response.text.strip().split('\n'); if len(lines) > 1: data = lines[1]\<close>,
  with \<^verbatim>\<open>data\<close> initially empty.
\<close>

definition data_line :: "pystr \<Rightarrow> pystr" where
  "data_line body =
     (let lines = split_nl (strip body) in if length lines > 1 then lines ! 1 else [])"

text \<open>The three messages of the failure outcomes (f-strings of lines 61, 68, 71 and 74).\<close>

definition msg_no_data :: "pystr \<Rightarrow> pystr" where
  "msg_no_data icao_code =
     [0x627E, 0x4E0D, 0x5230, 32] @ icao_code @
     [32, 0x7684, 32] @ str ''METAR/TAF'' @
     [32, 0x8CC7, 0x6599, 0x3002, 0x8ACB, 0x78BA, 0x8A8D, 0x4EE3, 0x78BC, 0x662F, 0x5426,
      0x6B63, 0x78BA, 0x3002]"

definition msg_404 :: "pystr \<Rightarrow> pystr" where
  "msg_404 icao_code =
     [0x627E, 0x4E0D, 0x5230, 32] @ icao_code @
     [32, 0x7684, 0x6C23, 0x8C61, 0x5831, 0x544A, 0x3002, 0x8A72, 32] @ str ''ICAO'' @
     [32, 0x4EE3, 0x78BC, 0x53EF, 0x80FD, 0x6C92, 0x6709, 0x63D0, 0x4F9B, 32] @
     str ''METAR/TAF'' @ [32, 0x5831, 0x544A, 0x3002]"

definition msg_api_error :: "pystr \<Rightarrow> pystr" where
  "msg_api_error class_name =
     [0x9023, 0x7DDA, 0x81F3, 0x6C23, 0x8C61, 32] @ str ''API'' @
     [32, 0x6642, 0x767C, 0x751F, 0x932F, 0x8AA4, 0xFF1A] @ class_name"

definition msg_unexpected :: "pystr \<Rightarrow> pystr" where
  "msg_unexpected class_name =
     [0x8655, 0x7406, 0x6C23, 0x8C61, 0x8CC7, 0x6599, 0x6642, 0x767C, 0x751F, 0x672A, 0x9810,
      0x671F, 0x7684, 0x932F, 0x8AA4, 0xFF1A] @ class_name"

text \<open>
  The \<^verbatim>\<open>try\<close> block (lines 42 to 63). The result is the returned pair or the exception
  that leaves the block, together with the requests sent so far. A Python pair
  \<^verbatim>\<open>(None, message)\<close> or \<^verbatim>\<open>(metar_data, taf_data)\<close> is a pair of an optional string and a
  string.
\<close>

definition try_block :: "world \<Rightarrow> pystr \<Rightarrow> (exn + pystr option \<times> pystr) \<times> effect list" where
  "try_block W icao_code =
     (case requests_get W (metar_request icao_code) of
        Inl e \<Rightarrow> (Inl e, [HttpGet (metar_request icao_code)])
      | Inr metar_response \<Rightarrow>
     (case raise_for_status metar_response of
        Inl e \<Rightarrow> (Inl e, [HttpGet (metar_request icao_code)])
      | Inr _ \<Rightarrow>
     (let metar_data = data_line (resp_text metar_response);
          sent = [HttpGet (metar_request icao_code), HttpGet (taf_request icao_code)]
      in case requests_get W (taf_request icao_code) of
        Inl e \<Rightarrow> (Inl e, sent)
      | Inr taf_response \<Rightarrow>
     (case raise_for_status taf_response of
        Inl e \<Rightarrow> (Inl e, sent)
      | Inr _ \<Rightarrow>
     (let taf_data = data_line (resp_text taf_response)
      in if \<not> truthy metar_data \<and> \<not> truthy taf_data
         then (Inr (None, msg_no_data icao_code), sent)
         else (Inr (Some metar_data, taf_data), sent))))))"

text \<open>The two \<^verbatim>\<open>except\<close> clauses (lines 65 to 74).\<close>

fun except_clauses :: "pystr \<Rightarrow> exn \<Rightarrow> pystr option \<times> pystr" where
  "except_clauses icao_code (HTTPError resp) =
     (if status_code resp = 404 then (None, msg_404 icao_code)
      else (None, msg_api_error (str ''HTTPError'')))"
| "except_clauses icao_code (OtherException class_name) = (None, msg_unexpected class_name)"

definition get_aviation_weather :: "world \<Rightarrow> pystr \<Rightarrow> (pystr option \<times> pystr) \<times> effect list" where
  "get_aviation_weather W icao_code =
     (case try_block W icao_code of
        (Inr result, sent) \<Rightarrow> (result, sent)
      | (Inl e, sent) \<Rightarrow> (except_clauses icao_code e, sent))"

section \<open>handle_message\<close>

text \<open>The fixed reply to a text that is not a four-letter code (lines 97 to 100).\<close>

definition reply_text_format_error :: pystr where
  "reply_text_format_error =
     [0x26A0, 0xFE0F, 32, 0x683C, 0x5F0F, 0x932F, 0x8AA4, 0xFF01, NL,
      0x8ACB, 0x8F38, 0x5165, 0x4E00, 0x500B, 32] @ str ''**4 '' @ [0x78BC, 32] @
     str ''ICAO '' @ [0x6A5F, 0x5834, 0x4EE3, 0x78BC] @ str ''**'' @
     [0xFF08, 0x4F8B, 0x5982, 0xFF1A] @ str ''**RCTP**'' @ [0x3001] @ str ''**RJAA**'' @
     [0x3001] @ str ''**KLAX**'' @ [0xFF09, 0x3002]"

text \<open>The pieces of the reply (lines 115, 119, 123, 126, 130 and 134).\<close>

definition header_line :: "pystr \<Rightarrow> pystr" where
  "header_line icao_code =
     [0x2708, 0xFE0F, 32] @ str ''**'' @ icao_code @ str ''** '' @
     [0x822A, 0x7A7A, 0x6C23, 0x8C61, 0x5831, 0x544A, 32] @
     str ''(Aviation Weather Report)'' @ [NL]"

definition metar_title :: pystr where
  "metar_title = str ''--- '' @ [0x89C0, 0x6E2C, 0x5831, 0x544A] @ str '' (METAR) ---''"

definition metar_not_found :: "pystr \<Rightarrow> pystr" where
  "metar_not_found icao_code =
     [0x274C, 32, 0x627E, 0x4E0D, 0x5230, 32] @ icao_code @
     [32, 0x7684, 0x6700, 0x65B0, 32] @ str ''METAR'' @ [32, 0x8CC7, 0x6599, 0x3002]"

definition taf_title :: pystr where
  "taf_title = [NL] @ str ''--- '' @ [0x9810, 0x5831] @ str '' (TAF) ---''"

definition taf_not_found :: "pystr \<Rightarrow> pystr" where
  "taf_not_found icao_code =
     [0x274C, 32, 0x627E, 0x4E0D, 0x5230, 32] @ icao_code @
     [32, 0x7684, 0x6700, 0x65B0, 32] @ str ''TAF'' @ [32, 0x8CC7, 0x6599, 0x3002]"

definition query_failed :: "pystr \<Rightarrow> pystr" where
  "query_failed taf = [0x1F6A8, 32, 0x67E5, 0x8A62, 0x5931, 0x6557, 0xFF1A, NL] @ taf"

text \<open>
  Step 3 of \<^verbatim>\<open>handle_message\<close> (lines 113 to 134): the value of \<^verbatim>\<open>final_reply\<close> for the
  code, the first and the second component of the pair that \<^verbatim>\<open>get_aviation_weather\<close>
  returned.
\<close>

definition format_reply :: "pystr \<Rightarrow> pystr option \<Rightarrow> pystr \<Rightarrow> pystr" where
  "format_reply icao_code metar taf =
     (if truthy_opt metar \<or> truthy taf then
        (let response_lines = [header_line icao_code];
             response_lines = response_lines @ [metar_title];
             response_lines = response_lines @
               [case metar of
                  None \<Rightarrow> metar_not_found icao_code
                | Some m \<Rightarrow> if truthy m then m else metar_not_found icao_code];
             response_lines = response_lines @ [taf_title];
             response_lines = response_lines @
               [if truthy taf then taf else taf_not_found icao_code]
         in join [NL] response_lines)
      else query_failed taf)"

text \<open>
  \<^verbatim>\<open>line_bot_api.reply_message(token, TextSendMessage(text=t))\<close>: the call is made, and it
  returns or raises.
\<close>

definition reply_message :: "world \<Rightarrow> pystr \<Rightarrow> pystr \<Rightarrow> pystr option \<times> effect list" where
  "reply_message W token t = (reply_api_raises W token t, [ReplyMessage token t])"

text \<open>
  The handler returns nothing; the result is the exception that leaves it, if any, and
  what it did.
\<close>

definition handle_message :: "world \<Rightarrow> event \<Rightarrow> pystr option \<times> effect list" where
  "handle_message W ev =
     (let user_input = strip (message_text ev) in
      if \<not> re_fullmatch_icao (upper (unicode_upper W) user_input)
      then reply_message W (reply_token ev) reply_text_format_error
      else
        (let icao_code = upper (unicode_upper W) user_input in
         case get_aviation_weather W icao_code of ((metar, taf), sent) \<Rightarrow>
         (let final_reply = format_reply icao_code metar taf in
          case reply_message W (reply_token ev) final_reply of
            (raised, replied) \<Rightarrow> (raised, sent @ replied))))"

section \<open>The webhook endpoint\<close>








section \<open>Auxiliary notions for the properties\<close>

text \<open>The status codes for which \<open>raise_for_status\<close> raises.\<close>

definition is_http_error :: "response \<Rightarrow> bool" where
  "is_http_error resp \<longleftrightarrow> 400 \<le> status_code resp \<and> status_code resp < 600"

text \<open>
  The second line of a text, said without splitting: what stands between the first line
  feed and the next one (or the end); empty when there is no line feed.
\<close>

definition second_line :: "pystr \<Rightarrow> pystr" where
  "second_line s = takeWhile (\<lambda>c. c \<noteq> NL) (tl (dropWhile (\<lambda>c. c \<noteq> NL) s))"

text \<open>
  A family of concrete environments for the code \<^verbatim>\<open>RCTP\<close>: the mirror answers the
  observation request with the first outcome and any other request with the second; the
  upper-case table leaves the code points beyond ASCII alone; the reply API accepts every
  call; the signature \<^verbatim>\<open>good\<close> is the valid one; every body is the envelope of one text
  message whose text is the body itself.
\<close>

definition example_world :: "http_outcome \<Rightarrow> http_outcome \<Rightarrow> world" where
  "example_world metar_outcome taf_outcome =
     \<lparr>http = (\<lambda>r. if url r = METAR_URL (str ''RCTP'') then metar_outcome else taf_outcome),
      unicode_upper = (\<lambda>c. [c]),
      reply_api_raises = (\<lambda>token t. None),
      signature_valid = (\<lambda>body signature. signature = str ''good''),
      parse_events =
        (\<lambda>body. Inr [TextMessageEvent \<lparr>reply_token = str ''token'', message_text = body\<rparr>])\<rparr>"

definition metar_body :: pystr where
  "metar_body = str ''2024/01/01 00:00'' @ [NL] @ str ''RCTP 010000Z 05010KT'' @ [NL]"

definition taf_body :: pystr where
  "taf_body = str ''2024/01/01 00:00'' @ [NL] @ str ''TAF RCTP 010500Z'' @ [NL]"

definition one_line_body :: pystr where
  "one_line_body = str ''2024/01/01 00:00'' @ [NL]"

text \<open>ASCII letters and their upper case, for stating what the validator accepts.\<close>

definition is_ascii_letter :: "nat \<Rightarrow> bool" where
  "is_ascii_letter c \<longleftrightarrow> (65 \<le> c \<and> c \<le> 90) \<or> (97 \<le> c \<and> c \<le> 122)"

definition ascii_upper :: "nat \<Rightarrow> nat" where
  "ascii_upper c = (if 97 \<le> c \<and> c \<le> 122 then c - 32 else c)"

text \<open>The texts handed to the reply API, in order.\<close>

fun reply_texts :: "effect list \<Rightarrow> pystr list" where
  "reply_texts [] = []"
| "reply_texts (HttpGet r # es) = reply_texts es"
| "reply_texts (ReplyMessage token t # es) = t # reply_texts es"

text \<open>
  The two-section layout of a reply: the header, the observation title, the observation
  part, the forecast title (which begins with an empty line) and the forecast part, one
  line feed between each.
\<close>

definition two_sections :: "pystr \<Rightarrow> pystr \<Rightarrow> pystr \<Rightarrow> pystr" where
  "two_sections icao_code observation forecast =
     header_line icao_code @ [NL] @ metar_title @ [NL] @ observation @ [NL] @
     taf_title @ [NL] @ forecast"

text \<open>An incoming text message with the text \<^verbatim>\<open>rctp\<close> between blanks.\<close>

definition example_event :: event where
  "example_event = \<lparr>reply_token = str ''token'', message_text = str '' rctp ''\<rparr>"



text \<open>
  Two bodies whose second line is not what the program takes: one begins with an empty
  line, the other has a second line of blanks only.
\<close>

definition blank_first_line_body :: pystr where
  "blank_first_line_body = [NL] @ str ''HDR'' @ [NL] @ str ''DATA'' @ [NL]"

definition blank_second_line_body :: pystr where
  "blank_second_line_body = str ''HDR'' @ [NL] @ str ''   '' @ [NL]"


text \<open>
  An upper-case table with the entry of Python's for U+00DF (LATIN SMALL LETTER SHARP S),
  whose upper case is the two letters \<^verbatim>\<open>SS\<close>; the other code points are left alone.
\<close>

definition sharp_s_upper :: "nat \<Rightarrow> pystr" where
  "sharp_s_upper c = (if c = 0xDF then str ''SS'' else [c])"

section \<open>Facts about get_aviation_weather\<close>

lemma msg_no_data_truthy: "truthy (msg_no_data c)"
  by (simp add: msg_no_data_def truthy_def)

lemma msg_404_truthy: "truthy (msg_404 c)"
  by (simp add: msg_404_def truthy_def)

lemma msg_api_error_truthy: "truthy (msg_api_error c)"
  by (simp add: msg_api_error_def truthy_def)

lemma msg_unexpected_truthy: "truthy (msg_unexpected c)"
  by (simp add: msg_unexpected_def truthy_def)

lemma except_clauses_failure:
  "fst (except_clauses c e) = None \<and> truthy (snd (except_clauses c e))"
  by (cases e) (simp_all add: msg_404_truthy msg_api_error_truthy msg_unexpected_truthy)

lemma try_block_result:
  "fst (try_block W c) = Inr (m, t) \<Longrightarrow> (m = None \<longrightarrow> truthy t) \<and> (truthy_opt m \<or> truthy t)"
  by (auto simp: try_block_def Let_def msg_no_data_truthy split: sum.splits if_splits)

lemma raise_for_status_cases:
  "raise_for_status r = (if is_http_error r then Inl (HTTPError r) else Inr ())"
  by (simp add: raise_for_status_def is_http_error_def)

text \<open>The five ways through the function.\<close>

lemma gaw_metar_raises:
  "http W (metar_request c) = Raises n \<Longrightarrow>
   get_aviation_weather W c = ((None, msg_unexpected n), [HttpGet (metar_request c)])"
  by (simp add: get_aviation_weather_def try_block_def requests_get_def)

lemma gaw_metar_error:
  "http W (metar_request c) = Responds r \<Longrightarrow> is_http_error r \<Longrightarrow>
   get_aviation_weather W c = (except_clauses c (HTTPError r), [HttpGet (metar_request c)])"
  by (simp add: get_aviation_weather_def try_block_def requests_get_def raise_for_status_cases)

lemma gaw_taf_raises:
  "http W (metar_request c) = Responds r \<Longrightarrow> \<not> is_http_error r \<Longrightarrow>
   http W (taf_request c) = Raises n \<Longrightarrow>
   get_aviation_weather W c =
     ((None, msg_unexpected n), [HttpGet (metar_request c), HttpGet (taf_request c)])"
  by (simp add: get_aviation_weather_def try_block_def requests_get_def raise_for_status_cases)

lemma gaw_taf_error:
  "http W (metar_request c) = Responds r \<Longrightarrow> \<not> is_http_error r \<Longrightarrow>
   http W (taf_request c) = Responds r' \<Longrightarrow> is_http_error r' \<Longrightarrow>
   get_aviation_weather W c =
     (except_clauses c (HTTPError r'), [HttpGet (metar_request c), HttpGet (taf_request c)])"
  by (simp add: get_aviation_weather_def try_block_def requests_get_def raise_for_status_cases)

lemma gaw_both_respond:
  "http W (metar_request c) = Responds r \<Longrightarrow> \<not> is_http_error r \<Longrightarrow>
   http W (taf_request c) = Responds r' \<Longrightarrow> \<not> is_http_error r' \<Longrightarrow>
   get_aviation_weather W c =
     (if \<not> truthy (data_line (resp_text r)) \<and> \<not> truthy (data_line (resp_text r'))
      then (None, msg_no_data c)
      else (Some (data_line (resp_text r)), data_line (resp_text r')),
      [HttpGet (metar_request c), HttpGet (taf_request c)])"
  by (simp add: get_aviation_weather_def try_block_def requests_get_def raise_for_status_cases
      Let_def)

lemma gaw_result_truthy:
  "fst (get_aviation_weather W icao_code) = (metar, taf) \<Longrightarrow>
   (metar = None \<longrightarrow> truthy taf) \<and> (truthy_opt metar \<or> truthy taf)"
proof -
  assume r: "fst (get_aviation_weather W icao_code) = (metar, taf)"
  obtain res sent where tb: "try_block W icao_code = (res, sent)"
    by (cases "try_block W icao_code")
  show ?thesis
  proof (cases res)
    case (Inl e)
    with tb r have "except_clauses icao_code e = (metar, taf)"
      by (simp add: get_aviation_weather_def)
    with except_clauses_failure [of icao_code e] show ?thesis
      by simp
  next
    case (Inr p)
    with tb r have "fst (try_block W icao_code) = Inr (metar, taf)"
      by (simp add: get_aviation_weather_def)
    from try_block_result [OF this] show ?thesis
      by simp
  qed
qed

text \<open>The example environments and bodies, evaluated.\<close>

lemma example_world_metar:
  "http (example_world mo to) (metar_request (str ''RCTP'')) = mo"
  by (simp add: example_world_def metar_request_def)

lemma example_world_taf:
  "http (example_world mo to) (taf_request (str ''RCTP'')) = to"
  by (simp add: example_world_def taf_request_def TAF_URL_def METAR_URL_def str_def)

lemma data_line_metar_body: "data_line metar_body = str ''RCTP 010000Z 05010KT''"
  by (simp add: data_line_def metar_body_def strip_def str_def NL_def isspace_def)

lemma data_line_taf_body: "data_line taf_body = str ''TAF RCTP 010500Z''"
  by (simp add: data_line_def taf_body_def strip_def str_def NL_def isspace_def)

lemma data_line_one_line_body: "data_line one_line_body = []"
  by (simp add: one_line_body_def data_line_def strip_def str_def NL_def isspace_def)

section \<open>Properties of get_aviation_weather\<close>

text \<open>
  C10. Whatever the mirror does, \<^verbatim>\<open>get_aviation_weather\<close> returns a pair; when its first
  component is \<^verbatim>\<open>None\<close> the second is a non-empty string, and in every returned pair at
  least one component is a non-empty string (two empty bulletins having been turned into
  \<^verbatim>\<open>None\<close> and a message).
\<close>

theorem get_aviation_weather_pair_invariant:
  "fst (get_aviation_weather W icao_code) = (metar, taf) \<Longrightarrow>
   (metar = None \<longrightarrow> taf \<noteq> []) \<and> (truthy_opt metar \<or> truthy taf)"
proof -
  assume r: "fst (get_aviation_weather W icao_code) = (metar, taf)"
  obtain res sent where tb: "try_block W icao_code = (res, sent)"
    by (cases "try_block W icao_code")
  show ?thesis
  proof (cases res)
    case (Inl e)
    with tb r have "except_clauses icao_code e = (metar, taf)"
      by (simp add: get_aviation_weather_def)
    with except_clauses_failure [of icao_code e] show ?thesis
      by (simp add: truthy_def)
  next
    case (Inr p)
    with tb r have "fst (try_block W icao_code) = Inr (metar, taf)"
      by (simp add: get_aviation_weather_def)
    from try_block_result [OF this] show ?thesis
      by (simp add: truthy_def)
  qed
qed

theorem get_aviation_weather_pair_invariant_witness:
  "fst (get_aviation_weather (example_world (Raises (str ''ConnectTimeout'')) (Raises []))
          (str ''RCTP'')) = (None, msg_unexpected (str ''ConnectTimeout'')) \<and>
   msg_unexpected (str ''ConnectTimeout'') \<noteq> [] \<and>
   truthy (msg_unexpected (str ''ConnectTimeout''))"
proof -
  have r: "fst (get_aviation_weather (example_world (Raises (str ''ConnectTimeout'')) (Raises []))
             (str ''RCTP'')) = (None, msg_unexpected (str ''ConnectTimeout''))"
    by (simp add: gaw_metar_raises [OF example_world_metar])
  from get_aviation_weather_pair_invariant [OF r] r show ?thesis
    by simp
qed

text \<open>
  C6. When both requests are answered with a 2xx status and neither body has a data line,
  the result is the failure outcome whose message is the "no METAR/TAF data found for
  ..." text; the message is not empty and contains the code, right after its first four
  code points.
\<close>

theorem both_bulletins_empty_is_failure:
  assumes "http W (metar_request icao_code) = Responds r"
    and "200 \<le> status_code r" and "status_code r < 300"
    and "http W (taf_request icao_code) = Responds r'"
    and "200 \<le> status_code r'" and "status_code r' < 300"
    and "data_line (resp_text r) = []" and "data_line (resp_text r') = []"
  shows "fst (get_aviation_weather W icao_code) = (None, msg_no_data icao_code) \<and>
         take (length icao_code) (drop 4 (msg_no_data icao_code)) = icao_code \<and>
         msg_no_data icao_code \<noteq> []"
proof -
  from assms have ok: "\<not> is_http_error r" "\<not> is_http_error r'"
    by (simp_all add: is_http_error_def)
  from gaw_both_respond [OF assms(1) ok(1) assms(4) ok(2)] assms(7,8)
  have "fst (get_aviation_weather W icao_code) = (None, msg_no_data icao_code)"
    by (simp add: truthy_def)
  moreover have "take (length icao_code) (drop 4 (msg_no_data icao_code)) = icao_code"
    by (simp add: msg_no_data_def)
  moreover have "msg_no_data icao_code \<noteq> []"
    by (simp add: msg_no_data_def)
  ultimately show ?thesis by simp
qed

theorem both_bulletins_empty_is_failure_witness:
  "fst (get_aviation_weather
          (example_world (Responds \<lparr>status_code = 200, resp_text = one_line_body\<rparr>)
                         (Responds \<lparr>status_code = 200, resp_text = []\<rparr>))
          (str ''RCTP'')) = (None, msg_no_data (str ''RCTP''))"
proof -
  let ?r = "\<lparr>status_code = 200, resp_text = one_line_body\<rparr>"
  let ?r' = "\<lparr>status_code = 200, resp_text = []\<rparr>"
  let ?W = "example_world (Responds ?r) (Responds ?r')"
  have h1: "http ?W (metar_request (str ''RCTP'')) = Responds ?r"
    by (rule example_world_metar)
  have h2: "http ?W (taf_request (str ''RCTP'')) = Responds ?r'"
    by (rule example_world_taf)
  have h3: "data_line (resp_text ?r) = []"
    by (simp add: data_line_one_line_body)
  have h4: "data_line (resp_text ?r') = []"
    by (simp add: data_line_def strip_def)
  have s: "200 \<le> status_code ?r" "status_code ?r < 300"
    "200 \<le> status_code ?r'" "status_code ?r' < 300"
    by simp_all
  from both_bulletins_empty_is_failure [OF h1 s(1) s(2) h2 s(3) s(4) h3 h4]
  show ?thesis by simp
qed

lemma msg_404_not_msg_unexpected: "msg_404 c \<noteq> msg_unexpected n"
  by (simp add: msg_404_def msg_unexpected_def)

lemma is_http_error_404: "status_code r = 404 \<Longrightarrow> is_http_error r"
  by (simp add: is_http_error_def)

text \<open>
  C4. When the observation request is answered with status 404, the result is the failure
  outcome with the "no weather report for ..." message. When a request raises (the first
  one, or the second one after a good first answer), the exception does not leave the
  function: the result is the failure outcome whose message is the "unexpected error"
  text followed by the class name of the exception (the message without its first 16 code
  points is the class name). The two messages are never equal. The 404 message is the
  text of line 68, code point by code point: it is not empty and contains the code after
  its first four code points; the other message is the text of line 74 and the class
  name.
\<close>

theorem not_found_and_transport_failures:
  "(http W (metar_request icao_code) = Responds r \<and> status_code r = 404 \<longrightarrow>
      fst (get_aviation_weather W icao_code) = (None, msg_404 icao_code)) \<and>
   (http W (metar_request icao_code) = Raises n \<longrightarrow>
      fst (get_aviation_weather W icao_code) = (None, msg_unexpected n)) \<and>
   (http W (metar_request icao_code) = Responds r' \<and> \<not> is_http_error r' \<and>
    http W (taf_request icao_code) = Raises n \<longrightarrow>
      fst (get_aviation_weather W icao_code) = (None, msg_unexpected n)) \<and>
   msg_404 icao_code \<noteq> msg_unexpected n' \<and>
   drop 16 (msg_unexpected n') = n' \<and>
   msg_404 icao_code =
     [0x627E, 0x4E0D, 0x5230, 32] @ icao_code @
     [32, 0x7684, 0x6C23, 0x8C61, 0x5831, 0x544A, 0x3002, 0x8A72, 32, 73, 67, 65, 79,
      32, 0x4EE3, 0x78BC, 0x53EF, 0x80FD, 0x6C92, 0x6709, 0x63D0, 0x4F9B, 32, 77, 69,
      84, 65, 82, 47, 84, 65, 70, 32, 0x5831, 0x544A, 0x3002] \<and>
   msg_unexpected n' =
     [0x8655, 0x7406, 0x6C23, 0x8C61, 0x8CC7, 0x6599, 0x6642, 0x767C, 0x751F, 0x672A,
      0x9810, 0x671F, 0x7684, 0x932F, 0x8AA4, 0xFF1A] @ n' \<and>
   msg_404 icao_code \<noteq> [] \<and>
   take (length icao_code) (drop 4 (msg_404 icao_code)) = icao_code"
proof -
  have "fst (get_aviation_weather W icao_code) = (None, msg_404 icao_code)"
    if "http W (metar_request icao_code) = Responds r" and "status_code r = 404"
    using gaw_metar_error [OF that(1) is_http_error_404 [OF that(2)]] that(2) by simp
  moreover have "fst (get_aviation_weather W icao_code) = (None, msg_unexpected n)"
    if "http W (metar_request icao_code) = Raises n"
    using gaw_metar_raises [OF that] by simp
  moreover have "fst (get_aviation_weather W icao_code) = (None, msg_unexpected n)"
    if "http W (metar_request icao_code) = Responds r'" and "\<not> is_http_error r'"
      and "http W (taf_request icao_code) = Raises n"
    using gaw_taf_raises [OF that] by simp
  moreover have "drop 16 (msg_unexpected n') = n'"
    by (simp add: msg_unexpected_def)
  moreover have "msg_404 icao_code =
     [0x627E, 0x4E0D, 0x5230, 32] @ icao_code @
     [32, 0x7684, 0x6C23, 0x8C61, 0x5831, 0x544A, 0x3002, 0x8A72, 32, 73, 67, 65, 79,
      32, 0x4EE3, 0x78BC, 0x53EF, 0x80FD, 0x6C92, 0x6709, 0x63D0, 0x4F9B, 32, 77, 69,
      84, 65, 82, 47, 84, 65, 70, 32, 0x5831, 0x544A, 0x3002]"
    by (simp add: msg_404_def str_def)
  moreover have "msg_unexpected n' =
     [0x8655, 0x7406, 0x6C23, 0x8C61, 0x8CC7, 0x6599, 0x6642, 0x767C, 0x751F, 0x672A,
      0x9810, 0x671F, 0x7684, 0x932F, 0x8AA4, 0xFF1A] @ n'"
    by (simp add: msg_unexpected_def)
  moreover have "msg_404 icao_code \<noteq> []"
    by (simp add: msg_404_def)
  moreover have "take (length icao_code) (drop 4 (msg_404 icao_code)) = icao_code"
    by (simp add: msg_404_def)
  ultimately show ?thesis
    using msg_404_not_msg_unexpected by blast
qed

theorem not_found_and_transport_failures_witness:
  "fst (get_aviation_weather
          (example_world (Responds \<lparr>status_code = 404, resp_text = []\<rparr>) (Raises []))
          (str ''RCTP'')) =
     (None,
      [0x627E, 0x4E0D, 0x5230, 32, 82, 67, 84, 80, 32, 0x7684, 0x6C23, 0x8C61, 0x5831,
       0x544A, 0x3002, 0x8A72, 32, 73, 67, 65, 79, 32, 0x4EE3, 0x78BC, 0x53EF, 0x80FD,
       0x6C92, 0x6709, 0x63D0, 0x4F9B, 32, 77, 69, 84, 65, 82, 47, 84, 65, 70, 32,
       0x5831, 0x544A, 0x3002]) \<and>
   fst (get_aviation_weather
          (example_world (Raises (str ''ReadTimeout'')) (Raises []))
          (str ''RCTP'')) =
     (None,
      [0x8655, 0x7406, 0x6C23, 0x8C61, 0x8CC7, 0x6599, 0x6642, 0x767C, 0x751F, 0x672A,
       0x9810, 0x671F, 0x7684, 0x932F, 0x8AA4, 0xFF1A, 82, 101, 97, 100, 84, 105, 109,
       101, 111, 117, 116]) \<and>
   fst (get_aviation_weather
          (example_world (Responds \<lparr>status_code = 200, resp_text = metar_body\<rparr>)
                         (Raises (str ''ConnectionError'')))
          (str ''RCTP'')) = (None, msg_unexpected (str ''ConnectionError''))"
proof -
  let ?c = "str ''RCTP''"
  let ?nf = "\<lparr>status_code = 404, resp_text = []\<rparr>"
  let ?ok = "\<lparr>status_code = 200, resp_text = metar_body\<rparr>"
  have a: "http (example_world (Responds ?nf) (Raises [])) (metar_request ?c) = Responds ?nf \<and>
           status_code ?nf = 404"
    by (simp add: example_world_metar)
  have b: "http (example_world (Raises (str ''ReadTimeout'')) (Raises [])) (metar_request ?c) =
           Raises (str ''ReadTimeout'')"
    by (rule example_world_metar)
  have c: "http (example_world (Responds ?ok) (Raises (str ''ConnectionError''))) (metar_request ?c) =
             Responds ?ok \<and> \<not> is_http_error ?ok \<and>
           http (example_world (Responds ?ok) (Raises (str ''ConnectionError''))) (taf_request ?c) =
             Raises (str ''ConnectionError'')"
    by (simp add: example_world_metar example_world_taf is_http_error_def)
  from not_found_and_transport_failures
         [of "example_world (Responds ?nf) (Raises [])" ?c ?nf "[]" ?nf "[]"] a
  have 1: "fst (get_aviation_weather (example_world (Responds ?nf) (Raises [])) ?c) =
           (None, msg_404 ?c)"
    by blast
  from not_found_and_transport_failures
         [of "example_world (Raises (str ''ReadTimeout'')) (Raises [])" ?c ?nf
             "str ''ReadTimeout''" ?nf "[]"] b
  have 2: "fst (get_aviation_weather (example_world (Raises (str ''ReadTimeout'')) (Raises [])) ?c) =
           (None, msg_unexpected (str ''ReadTimeout''))"
    by blast
  from not_found_and_transport_failures
         [of "example_world (Responds ?ok) (Raises (str ''ConnectionError''))" ?c ?nf
             "str ''ConnectionError''" ?ok "[]"] c
  have 3: "fst (get_aviation_weather
                  (example_world (Responds ?ok) (Raises (str ''ConnectionError''))) ?c) =
           (None, msg_unexpected (str ''ConnectionError''))"
    by blast
  from not_found_and_transport_failures [of _ ?c _ _ _ "str ''ReadTimeout''"]
  have m4: "msg_404 ?c =
     [0x627E, 0x4E0D, 0x5230, 32] @ ?c @
     [32, 0x7684, 0x6C23, 0x8C61, 0x5831, 0x544A, 0x3002, 0x8A72, 32, 73, 67, 65, 79,
      32, 0x4EE3, 0x78BC, 0x53EF, 0x80FD, 0x6C92, 0x6709, 0x63D0, 0x4F9B, 32, 77, 69,
      84, 65, 82, 47, 84, 65, 70, 32, 0x5831, 0x544A, 0x3002]"
    and m5: "msg_unexpected (str ''ReadTimeout'') =
     [0x8655, 0x7406, 0x6C23, 0x8C61, 0x8CC7, 0x6599, 0x6642, 0x767C, 0x751F, 0x672A,
      0x9810, 0x671F, 0x7684, 0x932F, 0x8AA4, 0xFF1A] @ str ''ReadTimeout''"
    by blast+
  from m4 have n4: "msg_404 ?c =
     [0x627E, 0x4E0D, 0x5230, 32, 82, 67, 84, 80, 32, 0x7684, 0x6C23, 0x8C61, 0x5831,
      0x544A, 0x3002, 0x8A72, 32, 73, 67, 65, 79, 32, 0x4EE3, 0x78BC, 0x53EF, 0x80FD,
      0x6C92, 0x6709, 0x63D0, 0x4F9B, 32, 77, 69, 84, 65, 82, 47, 84, 65, 70, 32,
      0x5831, 0x544A, 0x3002]"
    by (simp add: str_def)
  from m5 have n5: "msg_unexpected (str ''ReadTimeout'') =
     [0x8655, 0x7406, 0x6C23, 0x8C61, 0x8CC7, 0x6599, 0x6642, 0x767C, 0x751F, 0x672A,
      0x9810, 0x671F, 0x7684, 0x932F, 0x8AA4, 0xFF1A, 82, 101, 97, 100, 84, 105, 109,
      101, 111, 117, 116]"
    by (simp add: str_def)
  from 1 2 3 show ?thesis
    by (simp only: n4 n5)
qed

text \<open>
  C2, as stated, fails: with a good observation answer (data line
  \<^verbatim>\<open>RCTP 010000Z 05010KT\<close>) and status 404 for the forecast request, the result is the overall
  failure outcome with the 404 message; the observation is dropped.
\<close>
theorem http_error_discards_other_bulletin:
  "http (example_world (Responds \<lparr>status_code = 200, resp_text = metar_body\<rparr>)
                       (Responds \<lparr>status_code = 404, resp_text = []\<rparr>))
        (metar_request (str ''RCTP'')) = Responds \<lparr>status_code = 200, resp_text = metar_body\<rparr> \<and>
   data_line metar_body = str ''RCTP 010000Z 05010KT'' \<and>
   http (example_world (Responds \<lparr>status_code = 200, resp_text = metar_body\<rparr>)
                       (Responds \<lparr>status_code = 404, resp_text = []\<rparr>))
        (taf_request (str ''RCTP'')) = Responds \<lparr>status_code = 404, resp_text = []\<rparr> \<and>
   fst (get_aviation_weather
          (example_world (Responds \<lparr>status_code = 200, resp_text = metar_body\<rparr>)
                         (Responds \<lparr>status_code = 404, resp_text = []\<rparr>))
          (str ''RCTP'')) = (None, msg_404 (str ''RCTP'')) \<and>
   fst (get_aviation_weather
          (example_world (Responds \<lparr>status_code = 200, resp_text = metar_body\<rparr>)
                         (Responds \<lparr>status_code = 404, resp_text = []\<rparr>))
          (str ''RCTP'')) \<noteq> (Some (str ''RCTP 010000Z 05010KT''), [])"
proof -
  let ?ok = "\<lparr>status_code = 200, resp_text = metar_body\<rparr>"
  let ?nf = "\<lparr>status_code = 404, resp_text = []\<rparr>"
  have "\<not> is_http_error ?ok" and "is_http_error ?nf"
    by (simp_all add: is_http_error_def)
  from gaw_taf_error [OF example_world_metar this(1) example_world_taf this(2)]
  have "fst (get_aviation_weather (example_world (Responds ?ok) (Responds ?nf)) (str ''RCTP'')) =
        (None, msg_404 (str ''RCTP''))"
    by simp
  then show ?thesis
    by (simp add: example_world_metar example_world_taf data_line_metar_body)
qed

text \<open>
  C2, amended. When both requests are answered: a 4xx or 5xx status of either answer makes
  the whole result a failure outcome (first component \<^verbatim>\<open>None\<close>); when neither answer has
  such a status and exactly one of the two data lines is non-empty, the result is the
  success outcome carrying both values, the absent one empty.
\<close>

theorem partial_result_without_http_error:
  assumes "http W (metar_request icao_code) = Responds r"
    and "http W (taf_request icao_code) = Responds r'"
  shows "(is_http_error r \<or> is_http_error r' \<longrightarrow>
            fst (fst (get_aviation_weather W icao_code)) = None) \<and>
         (\<not> is_http_error r \<and> \<not> is_http_error r' \<and>
          truthy (data_line (resp_text r)) \<noteq> truthy (data_line (resp_text r')) \<longrightarrow>
            fst (get_aviation_weather W icao_code) =
              (Some (data_line (resp_text r)), data_line (resp_text r')))"
proof -
  have "fst (fst (get_aviation_weather W icao_code)) = None" if "is_http_error r"
    using gaw_metar_error [OF assms(1) that] except_clauses_failure by simp
  moreover have "fst (fst (get_aviation_weather W icao_code)) = None"
    if "\<not> is_http_error r" and "is_http_error r'"
    using gaw_taf_error [OF assms(1) that(1) assms(2) that(2)] except_clauses_failure by simp
  moreover have "fst (get_aviation_weather W icao_code) =
      (Some (data_line (resp_text r)), data_line (resp_text r'))"
    if "\<not> is_http_error r" and "\<not> is_http_error r'"
      and "truthy (data_line (resp_text r)) \<noteq> truthy (data_line (resp_text r'))"
    using gaw_both_respond [OF assms(1) that(1) assms(2) that(2)] that(3) by auto
  ultimately show ?thesis by blast
qed

theorem partial_result_without_http_error_witness:
  "fst (get_aviation_weather
          (example_world (Responds \<lparr>status_code = 200, resp_text = one_line_body\<rparr>)
                         (Responds \<lparr>status_code = 200, resp_text = taf_body\<rparr>))
          (str ''RCTP'')) = (Some [], str ''TAF RCTP 010500Z'') \<and>
   fst (fst (get_aviation_weather
          (example_world (Responds \<lparr>status_code = 200, resp_text = metar_body\<rparr>)
                         (Responds \<lparr>status_code = 503, resp_text = []\<rparr>))
          (str ''RCTP''))) = None"
proof -
  let ?c = "str ''RCTP''"
  let ?m1 = "\<lparr>status_code = 200, resp_text = one_line_body\<rparr>"
  let ?t1 = "\<lparr>status_code = 200, resp_text = taf_body\<rparr>"
  let ?m2 = "\<lparr>status_code = 200, resp_text = metar_body\<rparr>"
  let ?t2 = "\<lparr>status_code = 503, resp_text = []\<rparr>"
  have ok: "\<not> is_http_error ?m1 \<and> \<not> is_http_error ?t1 \<and>
            truthy (data_line (resp_text ?m1)) \<noteq> truthy (data_line (resp_text ?t1))"
    by (simp add: is_http_error_def data_line_one_line_body data_line_taf_body truthy_def str_def)
  have err: "is_http_error ?m2 \<or> is_http_error ?t2"
    by (simp add: is_http_error_def)
  from partial_result_without_http_error [OF example_world_metar example_world_taf, of ?m1 ?t1] ok
  have 1: "fst (get_aviation_weather (example_world (Responds ?m1) (Responds ?t1)) ?c) =
           (Some (data_line (resp_text ?m1)), data_line (resp_text ?t1))"
    by blast
  from partial_result_without_http_error [OF example_world_metar example_world_taf, of ?m2 ?t2] err
  have 2: "fst (fst (get_aviation_weather (example_world (Responds ?m2) (Responds ?t2)) ?c)) = None"
    by blast
  from 1 2 show ?thesis
    by (simp add: data_line_one_line_body data_line_taf_body)
qed


lemma split_nl_not_Nil: "split_nl s \<noteq> []"
  by (induction s) (auto split: list.splits)

lemma hd_split_nl: "hd (split_nl s) = takeWhile (\<lambda>c. c \<noteq> NL) s"
  by (induction s) (auto split: list.splits simp: split_nl_not_Nil)

lemma tl_split_nl:
  "tl (split_nl s) =
     (if NL \<in> set s then split_nl (tl (dropWhile (\<lambda>c. c \<noteq> NL) s)) else [])"
  by (induction s) (auto split: list.splits simp: split_nl_not_Nil)

lemma length_split_nl: "1 < length (split_nl s) \<longleftrightarrow> NL \<in> set s"
proof -
  have "1 < length (split_nl s) \<longleftrightarrow> tl (split_nl s) \<noteq> []"
    by (cases "split_nl s") (simp_all add: split_nl_not_Nil)
  then show ?thesis
    by (simp add: tl_split_nl split_nl_not_Nil)
qed

lemma second_split_nl: "NL \<in> set s \<Longrightarrow> split_nl s ! 1 = second_line s"
proof -
  assume nl: "NL \<in> set s"
  obtain l ls where sp: "split_nl s = l # ls"
    by (cases "split_nl s") (simp_all add: split_nl_not_Nil)
  from nl have "ls = split_nl (tl (dropWhile (\<lambda>c. c \<noteq> NL) s))"
    using tl_split_nl [of s] sp by simp
  then have "ls ! 0 = second_line s"
    using hd_split_nl [of "tl (dropWhile (\<lambda>c. c \<noteq> NL) s)"] split_nl_not_Nil
    by (simp add: second_line_def hd_conv_nth)
  with sp show ?thesis by simp
qed

lemma second_line_no_NL: "NL \<notin> set s \<Longrightarrow> second_line s = []"
proof -
  assume "NL \<notin> set s"
  then have h: "dropWhile (\<lambda>c. c \<noteq> NL) s = []"
    by (induction s) auto
  show ?thesis
    by (simp only: second_line_def h list.sel takeWhile.simps)
qed

lemma data_line_second_line: "data_line body = second_line (strip body)"
proof (cases "NL \<in> set (strip body)")
  case True
  with length_split_nl [of "strip body"] second_split_nl [of "strip body"] show ?thesis
    by (simp add: data_line_def Let_def)
next
  case False
  with length_split_nl [of "strip body"] second_line_no_NL [of "strip body"] show ?thesis
    by (simp add: data_line_def Let_def)
qed

lemma second_line_decomposed:
  assumes "NL \<notin> set h" and "NL \<notin> set d" and "rest = [] \<or> hd rest = NL"
  shows "second_line (h @ NL # d @ rest) = d"
proof -
  from assms(1) have "dropWhile (\<lambda>c. c \<noteq> NL) (h @ NL # d @ rest) = NL # d @ rest"
    by (induction h) auto
  moreover from assms(2,3) have "takeWhile (\<lambda>c. c \<noteq> NL) (d @ rest) = d"
    by (cases rest) (auto simp: takeWhile_tail)
  ultimately show ?thesis
    by (simp add: second_line_def)
qed

text \<open>
  C5, as stated, fails: the bulletin is not the second piece of the body split at line
  feeds. For a body that begins with an empty line the second piece is \<^verbatim>\<open>HDR\<close> and the
  program takes \<^verbatim>\<open>DATA\<close> (so does the fetch, under status 200); for a body whose second
  line is three blanks and the last the program takes the empty string. The program
  trims the body before it splits it.
\<close>

theorem bulletin_is_not_second_line_of_raw_body:
  "1 < length (split_nl blank_first_line_body) \<and>
   split_nl blank_first_line_body ! 1 = str ''HDR'' \<and>
   data_line blank_first_line_body = str ''DATA'' \<and>
   fst (get_aviation_weather
          (example_world (Responds \<lparr>status_code = 200, resp_text = blank_first_line_body\<rparr>)
                         (Responds \<lparr>status_code = 200, resp_text = blank_first_line_body\<rparr>))
          (str ''RCTP'')) = (Some (str ''DATA''), str ''DATA'') \<and>
   1 < length (split_nl blank_second_line_body) \<and>
   split_nl blank_second_line_body ! 1 = str ''   '' \<and>
   data_line blank_second_line_body = []"
proof -
  let ?r = "\<lparr>status_code = 200, resp_text = blank_first_line_body\<rparr>"
  have a: "split_nl blank_first_line_body = [[], str ''HDR'', str ''DATA'', []]"
    by (simp add: blank_first_line_body_def str_def NL_def)
  have b: "data_line blank_first_line_body = str ''DATA''"
    by (simp add: data_line_def blank_first_line_body_def strip_def str_def NL_def isspace_def)
  have c: "split_nl blank_second_line_body = [str ''HDR'', str ''   '', []]"
    by (simp add: blank_second_line_body_def str_def NL_def)
  have d: "data_line blank_second_line_body = []"
    by (simp add: data_line_def blank_second_line_body_def strip_def str_def NL_def isspace_def)
  have ok: "\<not> is_http_error ?r"
    by (simp add: is_http_error_def)
  have t: "truthy (str ''DATA'')"
    by (simp add: truthy_def str_def)
  from gaw_both_respond [OF example_world_metar ok example_world_taf ok] b t
  have e: "fst (get_aviation_weather (example_world (Responds ?r) (Responds ?r)) (str ''RCTP'')) =
      (Some (str ''DATA''), str ''DATA'')"
    by simp
  from a b c d e show ?thesis by simp
qed

text \<open>
  C5, amended. The bulletin taken from a body is the second line of the trimmed body
  (\<^verbatim>\<open>text.strip()\<close>, then the split at line feeds): it is the piece of index 1 when there
  are at least two pieces; the first line of the trimmed body is skipped, so when the
  trimmed body is a first line \<open>h\<close>, a line feed, a line \<open>d\<close> and then nothing or further
  lines, the bulletin is \<open>d\<close>. When the split gives fewer than two lines the bulletin is
  the empty string. A one-line observation body with a forecast body that has a data
  line, both under 2xx, gives the success outcome with an empty observation and that
  forecast line.
\<close>

theorem data_line_is_second_line_of_body:
  "data_line body = second_line (strip body) \<and>
   (1 < length (split_nl (strip body)) \<longrightarrow> data_line body = split_nl (strip body) ! 1) \<and>
   (strip body = h @ NL # d @ rest \<and> NL \<notin> set h \<and> NL \<notin> set d \<and>
    (rest = [] \<or> hd rest = NL) \<longrightarrow> data_line body = d) \<and>
   (length (split_nl (strip body)) < 2 \<longrightarrow> data_line body = []) \<and>
   (http W (metar_request icao_code) = Responds r \<and>
    200 \<le> status_code r \<and> status_code r < 300 \<and>
    length (split_nl (strip (resp_text r))) < 2 \<and>
    http W (taf_request icao_code) = Responds r' \<and>
    200 \<le> status_code r' \<and> status_code r' < 300 \<and>
    data_line (resp_text r') \<noteq> [] \<longrightarrow>
      fst (get_aviation_weather W icao_code) = (Some [], data_line (resp_text r')))"
proof -
  have a: "data_line body = second_line (strip body)"
    by (rule data_line_second_line)
  have i: "data_line body = split_nl (strip body) ! 1" if "1 < length (split_nl (strip body))"
    using that by (simp add: data_line_def)
  have b: "data_line body = d"
    if "strip body = h @ NL # d @ rest" and "NL \<notin> set h" and "NL \<notin> set d"
      and "rest = [] \<or> hd rest = NL"
    using second_line_decomposed [OF that(2,3,4)] that(1) a by simp
  have c: "data_line x = []" if "length (split_nl (strip x)) < 2" for x
    using that by (simp add: data_line_def)
  have d: "fst (get_aviation_weather W icao_code) = (Some [], data_line (resp_text r'))"
    if "http W (metar_request icao_code) = Responds r"
      and "200 \<le> status_code r" and "status_code r < 300"
      and "length (split_nl (strip (resp_text r))) < 2"
      and "http W (taf_request icao_code) = Responds r'"
      and "200 \<le> status_code r'" and "status_code r' < 300"
      and "data_line (resp_text r') \<noteq> []"
  proof -
    from that have ok: "\<not> is_http_error r" "\<not> is_http_error r'"
      by (simp_all add: is_http_error_def)
    from gaw_both_respond [OF that(1) ok(1) that(5) ok(2)] c [OF that(4)] that(8)
    show ?thesis by (simp add: truthy_def)
  qed
  from a i b c [of body] d show ?thesis by blast
qed

lemma strip_metar_body:
  "strip metar_body = str ''2024/01/01 00:00'' @ NL # str ''RCTP 010000Z 05010KT'' @ []"
  by (simp add: metar_body_def strip_def str_def NL_def isspace_def)

lemma one_line_body_lines: "length (split_nl (strip one_line_body)) < 2"
  by (simp add: one_line_body_def strip_def str_def NL_def isspace_def)

theorem data_line_is_second_line_of_body_witness:
  "data_line metar_body = str ''RCTP 010000Z 05010KT'' \<and>
   data_line one_line_body = [] \<and>
   fst (get_aviation_weather
          (example_world (Responds \<lparr>status_code = 200, resp_text = one_line_body\<rparr>)
                         (Responds \<lparr>status_code = 200, resp_text = taf_body\<rparr>))
          (str ''RCTP'')) = (Some [], str ''TAF RCTP 010500Z'')"
proof -
  let ?c = "str ''RCTP''"
  let ?m = "\<lparr>status_code = 200, resp_text = one_line_body\<rparr>"
  let ?t = "\<lparr>status_code = 200, resp_text = taf_body\<rparr>"
  let ?W = "example_world (Responds ?m) (Responds ?t)"
  have h1: "strip metar_body = str ''2024/01/01 00:00'' @ NL # str ''RCTP 010000Z 05010KT'' @ [] \<and>
        NL \<notin> set (str ''2024/01/01 00:00'') \<and> NL \<notin> set (str ''RCTP 010000Z 05010KT'') \<and>
        (([]::pystr) = [] \<or> hd ([]::pystr) = NL)"
    by (simp add: strip_metar_body) (simp add: str_def NL_def)
  have h2: "length (split_nl (strip one_line_body)) < 2"
    by (rule one_line_body_lines)
  have h3: "http ?W (metar_request ?c) = Responds ?m \<and>
        200 \<le> status_code ?m \<and> status_code ?m < 300 \<and>
        length (split_nl (strip (resp_text ?m))) < 2 \<and>
        http ?W (taf_request ?c) = Responds ?t \<and>
        200 \<le> status_code ?t \<and> status_code ?t < 300 \<and>
        data_line (resp_text ?t) \<noteq> []"
    by (simp add: example_world_metar example_world_taf one_line_body_lines data_line_taf_body)
      (simp add: str_def)
  from data_line_is_second_line_of_body
         [of metar_body "str ''2024/01/01 00:00''" "str ''RCTP 010000Z 05010KT''" "[]"] h1
  have 1: "data_line metar_body = str ''RCTP 010000Z 05010KT''"
    by blast
  from data_line_is_second_line_of_body [of one_line_body] h2
  have 2: "data_line one_line_body = []"
    by blast
  from data_line_is_second_line_of_body [of "[]" "[]" "[]" "[]" ?W ?c ?m ?t] h3
  have 3: "fst (get_aviation_weather ?W ?c) = (Some [], data_line (resp_text ?t))"
    by blast
  from 1 2 3 show ?thesis
    by (simp add: data_line_taf_body)
qed

text \<open>
  C8, as stated, fails: when the observation request is answered with status 404 only that
  request is sent; no forecast request follows.
\<close>
theorem forecast_request_skipped_after_failure:
  "snd (get_aviation_weather
          (example_world (Responds \<lparr>status_code = 404, resp_text = []\<rparr>)
                         (Responds \<lparr>status_code = 200, resp_text = taf_body\<rparr>))
          (str ''RCTP'')) = [HttpGet (metar_request (str ''RCTP''))] \<and>
   HttpGet (taf_request (str ''RCTP'')) \<notin>
     set (snd (get_aviation_weather
          (example_world (Responds \<lparr>status_code = 404, resp_text = []\<rparr>)
                         (Responds \<lparr>status_code = 200, resp_text = taf_body\<rparr>))
          (str ''RCTP'')))"
proof -
  let ?nf = "\<lparr>status_code = 404, resp_text = []\<rparr>"
  have e: "is_http_error ?nf"
    by (simp add: is_http_error_def)
  have d: "taf_request (str ''RCTP'') \<noteq> metar_request (str ''RCTP'')"
    by (simp add: taf_request_def metar_request_def TAF_URL_def METAR_URL_def str_def)
  from gaw_metar_error [OF example_world_metar e] d show ?thesis
    by simp
qed

text \<open>
  C8, amended. The observation request is always sent, and first; the forecast request is
  sent after it exactly when the observation request returned a response whose status is
  not 4xx or 5xx; nothing else is requested. The two URLs are the fixed prefixes, the
  code and \<^verbatim>\<open>.TXT\<close>; both requests carry the same single User-Agent header and the
  timeout 10.
\<close>

theorem requests_issued:
  "snd (get_aviation_weather W icao_code) =
     (case http W (metar_request icao_code) of
        Raises n \<Rightarrow> [HttpGet (metar_request icao_code)]
      | Responds r \<Rightarrow>
          if is_http_error r then [HttpGet (metar_request icao_code)]
          else [HttpGet (metar_request icao_code), HttpGet (taf_request icao_code)]) \<and>
   url (metar_request icao_code) =
     str ''https://tgftp.nws.noaa.gov/data/observations/metar/stations/'' @ icao_code @
     str ''.TXT'' \<and>
   url (taf_request icao_code) =
     str ''https://tgftp.nws.noaa.gov/data/forecasts/taf/stations/'' @ icao_code @
     str ''.TXT'' \<and>
   headers (metar_request icao_code) =
     [(str ''User-Agent'', str ''AviationWeatherBot (Python Requests)'')] \<and>
   headers (taf_request icao_code) = headers (metar_request icao_code) \<and>
   timeout (metar_request icao_code) = 10 \<and> timeout (taf_request icao_code) = 10"
proof -
  have "snd (get_aviation_weather W icao_code) =
     (case http W (metar_request icao_code) of
        Raises n \<Rightarrow> [HttpGet (metar_request icao_code)]
      | Responds r \<Rightarrow>
          if is_http_error r then [HttpGet (metar_request icao_code)]
          else [HttpGet (metar_request icao_code), HttpGet (taf_request icao_code)])"
  proof (cases "http W (metar_request icao_code)")
    case (Raises n)
    with gaw_metar_raises [OF Raises] show ?thesis by simp
  next
    case m: (Responds r)
    show ?thesis
    proof (cases "is_http_error r")
      case True
      with gaw_metar_error [OF m True] m show ?thesis by simp
    next
      case ok: False
      show ?thesis
      proof (cases "http W (taf_request icao_code)")
        case (Raises n)
        with gaw_taf_raises [OF m ok Raises] m ok show ?thesis by simp
      next
        case t: (Responds r')
        show ?thesis
        proof (cases "is_http_error r'")
          case True
          with gaw_taf_error [OF m ok t True] m ok show ?thesis by simp
        next
          case False
          with gaw_both_respond [OF m ok t False] m ok show ?thesis by simp
        qed
      qed
    qed
  qed
  then show ?thesis
    by (simp add: metar_request_def taf_request_def METAR_URL_def TAF_URL_def
        user_agent_headers_def)
qed

theorem requests_issued_witness:
  "snd (get_aviation_weather
          (example_world (Responds \<lparr>status_code = 200, resp_text = metar_body\<rparr>)
                         (Responds \<lparr>status_code = 200, resp_text = taf_body\<rparr>))
          (str ''RCTP'')) =
     [HttpGet (metar_request (str ''RCTP'')), HttpGet (taf_request (str ''RCTP''))] \<and>
   url (metar_request (str ''RCTP'')) =
     str ''https://tgftp.nws.noaa.gov/data/observations/metar/stations/RCTP.TXT'' \<and>
   url (taf_request (str ''RCTP'')) =
     str ''https://tgftp.nws.noaa.gov/data/forecasts/taf/stations/RCTP.TXT''"
proof -
  let ?c = "str ''RCTP''"
  let ?W = "example_world (Responds \<lparr>status_code = 200, resp_text = metar_body\<rparr>)
                          (Responds \<lparr>status_code = 200, resp_text = taf_body\<rparr>)"
  note t = requests_issued [of ?W ?c]
  from t have "snd (get_aviation_weather ?W ?c) =
     (case http ?W (metar_request ?c) of
        Raises n \<Rightarrow> [HttpGet (metar_request ?c)]
      | Responds r \<Rightarrow>
          if is_http_error r then [HttpGet (metar_request ?c)]
          else [HttpGet (metar_request ?c), HttpGet (taf_request ?c)])"
    by (rule conjunct1)
  then have 1: "snd (get_aviation_weather ?W ?c) =
      [HttpGet (metar_request ?c), HttpGet (taf_request ?c)]"
    by (simp add: example_world_metar is_http_error_def)
  from t have "url (metar_request ?c) =
      str ''https://tgftp.nws.noaa.gov/data/observations/metar/stations/'' @ ?c @ str ''.TXT''"
    by blast
  then have 2: "url (metar_request ?c) =
      str ''https://tgftp.nws.noaa.gov/data/observations/metar/stations/RCTP.TXT''"
    by (simp add: str_def)
  from t have "url (taf_request ?c) =
      str ''https://tgftp.nws.noaa.gov/data/forecasts/taf/stations/'' @ ?c @ str ''.TXT''"
    by blast
  then have 3: "url (taf_request ?c) =
      str ''https://tgftp.nws.noaa.gov/data/forecasts/taf/stations/RCTP.TXT''"
    by (simp add: str_def)
  from 1 2 3 show ?thesis
    by (intro conjI)
qed

section \<open>Properties of handle_message\<close>

lemma reply_texts_append: "reply_texts (xs @ ys) = reply_texts xs @ reply_texts ys"
  by (induction xs rule: reply_texts.induct) simp_all

lemma reply_texts_fetch: "reply_texts (snd (get_aviation_weather W c)) = []"
  by (auto simp: get_aviation_weather_def try_block_def Let_def split: sum.splits prod.splits)

lemma handle_message_rejects:
  "\<not> re_fullmatch_icao (upper (unicode_upper W) (strip (message_text ev))) \<Longrightarrow>
   handle_message W ev =
     (reply_api_raises W (reply_token ev) reply_text_format_error,
      [ReplyMessage (reply_token ev) reply_text_format_error])"
  by (simp add: handle_message_def reply_message_def)

lemma handle_message_accepts:
  "re_fullmatch_icao (upper (unicode_upper W) (strip (message_text ev))) \<Longrightarrow>
   icao_code = upper (unicode_upper W) (strip (message_text ev)) \<Longrightarrow>
   get_aviation_weather W icao_code = ((metar, taf), sent) \<Longrightarrow>
   handle_message W ev =
     (reply_api_raises W (reply_token ev) (format_reply icao_code metar taf),
      sent @ [ReplyMessage (reply_token ev) (format_reply icao_code metar taf)])"
  by (simp add: handle_message_def reply_message_def Let_def)

lemma upper_ascii: "list_all (\<lambda>c. c < 128) s \<Longrightarrow> upper U s = map ascii_upper s"
  by (induction s) (auto simp: upper_def upper_cp_def ascii_upper_def)

lemma is_AZ_ascii_upper: "is_AZ (ascii_upper c) \<longleftrightarrow> is_ascii_letter c"
  by (auto simp: is_AZ_def ascii_upper_def is_ascii_letter_def)

lemma is_ascii_letter_ascii: "is_ascii_letter c \<Longrightarrow> c < 128"
  by (auto simp: is_ascii_letter_def)

lemma letters_ascii: "list_all is_ascii_letter s \<Longrightarrow> list_all (\<lambda>c. c < 128) s"
  by (induction s) (auto simp: is_ascii_letter_ascii)

lemma list_all_is_AZ_upper:
  "list_all is_AZ (map ascii_upper s) \<longleftrightarrow> list_all is_ascii_letter s"
  by (induction s) (auto simp: is_AZ_ascii_upper)

lemma strip_subset: "set (strip s) \<subseteq> set s"
proof -
  have "set (strip s) \<subseteq> set (dropWhile isspace s)"
    using set_dropWhileD [of _ isspace "rev (dropWhile isspace s)"]
    by (auto simp: strip_def)
  also have "\<dots> \<subseteq> set s"
    using set_dropWhileD [of _ isspace s] by auto
  finally show ?thesis .
qed

lemma strip_ascii: "list_all (\<lambda>c. c < 128) s \<Longrightarrow> list_all (\<lambda>c. c < 128) (strip s)"
  using strip_subset [of s] by (auto simp: list_all_iff)

lemma accepts_four_letters:
  "length s = 4 \<Longrightarrow> list_all is_ascii_letter s \<Longrightarrow>
   upper U s = map ascii_upper s \<and> re_fullmatch_icao (upper U s)"
  by (simp add: upper_ascii [OF letters_ascii] re_fullmatch_icao_def list_all_is_AZ_upper)

lemma ascii_accept_iff:
  "list_all (\<lambda>c. c < 128) s \<Longrightarrow>
   re_fullmatch_icao (upper U s) \<longleftrightarrow> length s = 4 \<and> list_all is_ascii_letter s"
  by (simp add: upper_ascii re_fullmatch_icao_def list_all_is_AZ_upper)

lemma gaw_first_effect:
  "\<exists>rest. snd (get_aviation_weather W c) = HttpGet (metar_request c) # rest"
  by (auto simp: get_aviation_weather_def try_block_def Let_def split: sum.splits prod.splits)

text \<open>
  Beyond ASCII the outcome of the test rests on the table of the runtime: a table that
  sends U+00DF to \<^verbatim>\<open>SS\<close>, as Python's does, turns a text of two such code points into
  \<^verbatim>\<open>SSSS\<close>, which passes.
\<close>

lemma upper_beyond_ascii_example:
  "re_fullmatch_icao (upper (\<lambda>c. if c = 0xDF then str ''SS'' else [c]) (strip [0xDF, 0xDF]))"
  by (simp add: re_fullmatch_icao_def upper_def upper_cp_def strip_def str_def isspace_def
      is_AZ_def)

text \<open>
  What the validator does, for any upper-case table. The handler tests the trimmed,
  upper-cased text against four letters A to Z. When the test fails, all it does is send
  the fixed instruction reply: no request goes to the weather mirror. When the trimmed
  text is exactly four ASCII letters, in any case, the test succeeds, the code is those
  letters in upper case, and the handler performs the fetch for that code before its
  single reply. For a text of ASCII characters the test succeeds exactly when the trimmed
  text is four ASCII letters.
\<close>

lemma validator_on_upper_cased_text:
  "(\<not> re_fullmatch_icao (upper (unicode_upper W) (strip (message_text ev))) \<longrightarrow>
      snd (handle_message W ev) = [ReplyMessage (reply_token ev) reply_text_format_error]) \<and>
   (length (strip (message_text ev)) = 4 \<and> list_all is_ascii_letter (strip (message_text ev)) \<longrightarrow>
      re_fullmatch_icao (upper (unicode_upper W) (strip (message_text ev))) \<and>
      upper (unicode_upper W) (strip (message_text ev)) =
        map ascii_upper (strip (message_text ev)) \<and>
      hd (snd (handle_message W ev)) =
        HttpGet (metar_request (map ascii_upper (strip (message_text ev)))) \<and>
      butlast (snd (handle_message W ev)) =
        snd (get_aviation_weather W (map ascii_upper (strip (message_text ev))))) \<and>
   (list_all (\<lambda>c. c < 128) (message_text ev) \<longrightarrow>
      re_fullmatch_icao (upper (unicode_upper W) (strip (message_text ev))) =
        (length (strip (message_text ev)) = 4 \<and>
         list_all is_ascii_letter (strip (message_text ev))))"
proof -
  let ?s = "strip (message_text ev)"
  let ?U = "unicode_upper W"
  have a: "snd (handle_message W ev) = [ReplyMessage (reply_token ev) reply_text_format_error]"
    if "\<not> re_fullmatch_icao (upper ?U ?s)"
    using handle_message_rejects [OF that] by simp
  have b: "re_fullmatch_icao (upper ?U ?s) \<and> upper ?U ?s = map ascii_upper ?s \<and>
      hd (snd (handle_message W ev)) = HttpGet (metar_request (map ascii_upper ?s)) \<and>
      butlast (snd (handle_message W ev)) = snd (get_aviation_weather W (map ascii_upper ?s))"
    if l: "length ?s = 4" "list_all is_ascii_letter ?s"
  proof -
    from accepts_four_letters [OF l, of ?U] have m: "re_fullmatch_icao (upper ?U ?s)"
      and u: "upper ?U ?s = map ascii_upper ?s"
      by blast+
    obtain metar taf sent where g:
      "get_aviation_weather W (upper ?U ?s) = ((metar, taf), sent)"
      by (metis prod.exhaust)
    from gaw_first_effect [of W "upper ?U ?s"] g obtain rest where
      r: "sent = HttpGet (metar_request (upper ?U ?s)) # rest"
      by auto
    from handle_message_accepts [OF m refl g] r g u m show ?thesis
      by simp
  qed
  have c: "re_fullmatch_icao (upper ?U ?s) = (length ?s = 4 \<and> list_all is_ascii_letter ?s)"
    if "list_all (\<lambda>c. c < 128) (message_text ev)"
    using ascii_accept_iff [OF strip_ascii [OF that]] by simp
  from a b c show ?thesis by blast
qed

lemma strip_example_text: "strip (str '' rctp '') = str ''rctp''"
  by (simp add: strip_def str_def isspace_def)

lemma upper_example_text: "map ascii_upper (str ''rctp'') = str ''RCTP''"
  by (simp add: ascii_upper_def str_def)

lemma validator_on_upper_cased_text_example:
  "snd (handle_message (example_world (Raises []) (Raises []))
          \<lparr>reply_token = str ''token'', message_text = str ''RCTP1''\<rparr>) =
     [ReplyMessage (str ''token'') reply_text_format_error] \<and>
   hd (snd (handle_message (example_world (Raises []) (Raises [])) example_event)) =
     HttpGet (metar_request (str ''RCTP''))"
proof -
  let ?W = "example_world (Raises []) (Raises [])"
  let ?bad = "\<lparr>reply_token = str ''token'', message_text = str ''RCTP1''\<rparr>"
  have h1: "\<not> re_fullmatch_icao (upper (unicode_upper ?W) (strip (message_text ?bad)))"
    by (simp add: re_fullmatch_icao_def upper_def upper_cp_def strip_def str_def isspace_def)
  have h2: "length (strip (message_text example_event)) = 4 \<and>
            list_all is_ascii_letter (strip (message_text example_event))"
    by (simp add: example_event_def strip_example_text) (simp add: str_def is_ascii_letter_def)
  from validator_on_upper_cased_text [of ?W ?bad] h1
  have 1: "snd (handle_message ?W ?bad) = [ReplyMessage (reply_token ?bad) reply_text_format_error]"
    by blast
  from validator_on_upper_cased_text [of ?W example_event] h2
  have "hd (snd (handle_message ?W example_event)) =
        HttpGet (metar_request (map ascii_upper (strip (message_text example_event))))"
    by blast
  then have 2: "hd (snd (handle_message ?W example_event)) = HttpGet (metar_request (str ''RCTP''))"
    by (simp add: example_event_def strip_example_text upper_example_text)
  from 1 2 show ?thesis by simp
qed

lemma format_reply_truthy:
  "truthy_opt metar \<or> truthy taf \<Longrightarrow>
   format_reply icao_code metar taf =
     two_sections icao_code
       (case metar of None \<Rightarrow> metar_not_found icao_code
        | Some m \<Rightarrow> if truthy m then m else metar_not_found icao_code)
       (if truthy taf then taf else taf_not_found icao_code)"
  by (simp add: format_reply_def two_sections_def Let_def)

lemma two_sections_not_query_failed: "two_sections c x y \<noteq> query_failed z"
  by (simp add: two_sections_def query_failed_def header_line_def)

lemma upper_strip_RCTP: "upper (\<lambda>c. [c]) (strip (str ''RCTP'')) = str ''RCTP''"
  by (simp add: upper_def upper_cp_def strip_def str_def isspace_def)

lemma fullmatch_RCTP: "re_fullmatch_icao (str ''RCTP'')"
  by (simp add: re_fullmatch_icao_def str_def is_AZ_def)

lemma unicode_upper_example_world: "unicode_upper (example_world mo to) = (\<lambda>c. [c])"
  by (simp add: example_world_def)

lemma example_world_other_code:
  "http (example_world mo to) (metar_request [83, 83, 83, 83]) = to"
  by (simp add: example_world_def metar_request_def METAR_URL_def str_def)

text \<open>
  C3 against the code. The text of two code points U+00DF is not four ASCII letters, in
  any case, and trimming leaves it as it is. Its upper case is \<^verbatim>\<open>SSSS\<close>, which passes the
  test of line 96: the handler does not send the instruction reply; it requests the
  observation file of \<^verbatim>\<open>SSSS\<close> from the mirror and replies with what the fetch gave (here
  the mirror answers 404).
\<close>

theorem sharp_s_text_is_fetched:
  "strip [0xDF, 0xDF] = [0xDF, 0xDF] \<and>
   \<not> (length (strip [0xDF, 0xDF]) = 4 \<and> list_all is_ascii_letter (strip [0xDF, 0xDF])) \<and>
   upper sharp_s_upper (strip [0xDF, 0xDF]) = [83, 83, 83, 83] \<and>
   snd (handle_message
          ((example_world (Raises []) (Responds \<lparr>status_code = 404, resp_text = []\<rparr>))
             \<lparr>unicode_upper := sharp_s_upper\<rparr>)
          \<lparr>reply_token = str ''token'', message_text = [0xDF, 0xDF]\<rparr>) =
     [HttpGet (metar_request [83, 83, 83, 83]),
      ReplyMessage (str ''token'')
        (format_reply [83, 83, 83, 83] None (msg_404 [83, 83, 83, 83]))] \<and>
   url (metar_request [83, 83, 83, 83]) =
     str ''https://tgftp.nws.noaa.gov/data/observations/metar/stations/SSSS.TXT'' \<and>
   snd (handle_message
          ((example_world (Raises []) (Responds \<lparr>status_code = 404, resp_text = []\<rparr>))
             \<lparr>unicode_upper := sharp_s_upper\<rparr>)
          \<lparr>reply_token = str ''token'', message_text = [0xDF, 0xDF]\<rparr>) \<noteq>
     [ReplyMessage (str ''token'') reply_text_format_error]"
proof -
  let ?nf = "\<lparr>status_code = 404, resp_text = []\<rparr>"
  let ?W = "(example_world (Raises []) (Responds ?nf)) \<lparr>unicode_upper := sharp_s_upper\<rparr>"
  let ?ev = "\<lparr>reply_token = str ''token'', message_text = [0xDF, 0xDF]\<rparr>"
  let ?c = "[83, 83, 83, 83] :: pystr"
  have s: "strip [0xDF, 0xDF] = [0xDF, 0xDF]"
    by (simp add: strip_def isspace_def)
  have u: "upper sharp_s_upper [0xDF, 0xDF] = ?c"
    by (simp add: upper_def upper_cp_def sharp_s_upper_def str_def)
  have m: "re_fullmatch_icao ?c"
    by (simp add: re_fullmatch_icao_def is_AZ_def)
  have h: "http ?W (metar_request ?c) = Responds ?nf"
    by (simp add: example_world_other_code)
  have e: "is_http_error ?nf"
    by (simp add: is_http_error_def)
  from gaw_metar_error [OF h e]
  have g: "get_aviation_weather ?W ?c = ((None, msg_404 ?c), [HttpGet (metar_request ?c)])"
    by simp
  have u': "?c = upper (unicode_upper ?W) (strip (message_text ?ev))"
    by (simp add: s u)
  from m u' have m': "re_fullmatch_icao (upper (unicode_upper ?W) (strip (message_text ?ev)))"
    by simp
  from handle_message_accepts [OF m' u' g]
  have r: "snd (handle_message ?W ?ev) =
      [HttpGet (metar_request ?c),
       ReplyMessage (str ''token'') (format_reply ?c None (msg_404 ?c))]"
    by simp
  have l: "url (metar_request ?c) =
      str ''https://tgftp.nws.noaa.gov/data/observations/metar/stations/SSSS.TXT''"
    by (simp add: metar_request_def METAR_URL_def str_def)
  from s u r l show ?thesis
    by simp
qed

text \<open>
  C1 against the code. For the text \<^verbatim>\<open>RCTP\<close> and two answers with status 200 and one-line
  bodies, \<^verbatim>\<open>get_aviation_weather\<close> returns the failure outcome with the "no data" message,
  and the one reply sent is in the two-section layout, with the observation not-found
  notice in the first section and the failure message in the forecast section. It is not
  the "query failed" text around the message: the test \<^verbatim>\<open>metar or taf\<close> of line 113 is
  true because the message is a non-empty string.
\<close>
theorem failure_outcome_gets_two_section_reply:
  "fst (get_aviation_weather
          (example_world (Responds \<lparr>status_code = 200, resp_text = one_line_body\<rparr>)
                         (Responds \<lparr>status_code = 200, resp_text = one_line_body\<rparr>))
          (str ''RCTP'')) = (None, msg_no_data (str ''RCTP'')) \<and>
   reply_texts (snd (handle_message
          (example_world (Responds \<lparr>status_code = 200, resp_text = one_line_body\<rparr>)
                         (Responds \<lparr>status_code = 200, resp_text = one_line_body\<rparr>))
          \<lparr>reply_token = str ''token'', message_text = str ''RCTP''\<rparr>)) =
     [two_sections (str ''RCTP'') (metar_not_found (str ''RCTP'')) (msg_no_data (str ''RCTP''))] \<and>
   two_sections (str ''RCTP'') (metar_not_found (str ''RCTP'')) (msg_no_data (str ''RCTP'')) \<noteq>
     query_failed (msg_no_data (str ''RCTP''))"
proof -
  let ?c = "str ''RCTP''"
  let ?r = "\<lparr>status_code = 200, resp_text = one_line_body\<rparr>"
  let ?W = "example_world (Responds ?r) (Responds ?r)"
  let ?ev = "\<lparr>reply_token = str ''token'', message_text = str ''RCTP''\<rparr>"
  have ok: "\<not> is_http_error ?r"
    by (simp add: is_http_error_def)
  from gaw_both_respond [OF example_world_metar ok example_world_taf ok]
  have g: "get_aviation_weather ?W ?c =
      ((None, msg_no_data ?c), [HttpGet (metar_request ?c), HttpGet (taf_request ?c)])"
    by (simp add: data_line_one_line_body truthy_def)
  have u: "upper (unicode_upper ?W) (strip (message_text ?ev)) = ?c"
    by (simp add: unicode_upper_example_world upper_strip_RCTP)
  have m: "re_fullmatch_icao (upper (unicode_upper ?W) (strip (message_text ?ev)))"
    by (simp only: u fullmatch_RCTP)
  from handle_message_accepts [OF m u [symmetric] g]
  have "reply_texts (snd (handle_message ?W ?ev)) = [format_reply ?c None (msg_no_data ?c)]"
    by simp
  moreover have "format_reply ?c None (msg_no_data ?c) =
      two_sections ?c (metar_not_found ?c) (msg_no_data ?c)"
    by (simp add: format_reply_truthy msg_no_data_truthy)
  ultimately show ?thesis
    using g two_sections_not_query_failed by simp
qed

text \<open>
  C9. For an accepted text, the one reply text is \<open>format_reply\<close> of the code and the two
  components of the fetched pair, and at least one component of that pair is non-empty;
  so two handlings, in any two environments, that have the same code and fetch the same
  pair send the same text. Whenever one of the two components is non-empty,
  \<open>format_reply\<close> is the two-section layout, which is written out code point by code
  point: the header of line 115 with the code in it, an empty line, the title of line
  119, the observation line or the not-found notice of line 123, the title of line 126
  after an empty line, and the forecast line or the not-found notice of line 130; both
  notices contain the code.
\<close>

theorem reply_is_function_of_triple:
  "(re_fullmatch_icao icao_code \<and>
    icao_code = upper (unicode_upper W) (strip (message_text ev)) \<and>
    fst (get_aviation_weather W icao_code) = (metar, taf) \<longrightarrow>
      reply_texts (snd (handle_message W ev)) = [format_reply icao_code metar taf] \<and>
      (truthy_opt metar \<or> truthy taf)) \<and>
   (re_fullmatch_icao icao_code \<and>
    icao_code = upper (unicode_upper W) (strip (message_text ev)) \<and>
    icao_code = upper (unicode_upper W') (strip (message_text ev')) \<and>
    fst (get_aviation_weather W icao_code) = fst (get_aviation_weather W' icao_code) \<longrightarrow>
      reply_texts (snd (handle_message W ev)) = reply_texts (snd (handle_message W' ev'))) \<and>
   (truthy_opt metar \<or> truthy taf \<longrightarrow>
      format_reply icao_code metar taf =
        two_sections icao_code
          (case metar of None \<Rightarrow> metar_not_found icao_code
           | Some m \<Rightarrow> if truthy m then m else metar_not_found icao_code)
          (if truthy taf then taf else taf_not_found icao_code)) \<and>
   take (length icao_code) (drop 5 (header_line icao_code)) = icao_code \<and>
   two_sections icao_code observation forecast =
     [0x2708, 0xFE0F, 32, 42, 42] @ icao_code @
     [42, 42, 32, 0x822A, 0x7A7A, 0x6C23, 0x8C61, 0x5831, 0x544A, 32, 40, 65, 118, 105,
      97, 116, 105, 111, 110, 32, 87, 101, 97, 116, 104, 101, 114, 32, 82, 101, 112,
      111, 114, 116, 41, 10] @
     [10] @
     [45, 45, 45, 32, 0x89C0, 0x6E2C, 0x5831, 0x544A, 32, 40, 77, 69, 84, 65, 82, 41,
      32, 45, 45, 45] @
     [10] @ observation @ [10] @
     [10, 45, 45, 45, 32, 0x9810, 0x5831, 32, 40, 84, 65, 70, 41, 32, 45, 45, 45] @
     [10] @ forecast \<and>
   metar_not_found icao_code =
     [0x274C, 32, 0x627E, 0x4E0D, 0x5230, 32] @ icao_code @
     [32, 0x7684, 0x6700, 0x65B0, 32, 77, 69, 84, 65, 82, 32, 0x8CC7, 0x6599, 0x3002] \<and>
   taf_not_found icao_code =
     [0x274C, 32, 0x627E, 0x4E0D, 0x5230, 32] @ icao_code @
     [32, 0x7684, 0x6700, 0x65B0, 32, 84, 65, 70, 32, 0x8CC7, 0x6599, 0x3002]"
proof -
  have a: "reply_texts (snd (handle_message V e)) = [format_reply icao_code m t] \<and>
      (truthy_opt m \<or> truthy t)"
    if m: "re_fullmatch_icao icao_code"
      and u: "icao_code = upper (unicode_upper V) (strip (message_text e))"
      and g: "fst (get_aviation_weather V icao_code) = (m, t)"
    for V e m t
  proof -
    obtain sent where s: "get_aviation_weather V icao_code = ((m, t), sent)"
      using g by (cases "get_aviation_weather V icao_code") simp
    from m u have m': "re_fullmatch_icao (upper (unicode_upper V) (strip (message_text e)))"
      by simp
    from handle_message_accepts [OF m' u s] reply_texts_fetch [of V icao_code] s
      gaw_result_truthy [OF g]
    show ?thesis
      by (simp add: reply_texts_append)
  qed
  have b: "reply_texts (snd (handle_message W ev)) = reply_texts (snd (handle_message W' ev'))"
    if m: "re_fullmatch_icao icao_code"
      and u: "icao_code = upper (unicode_upper W) (strip (message_text ev))"
      and u': "icao_code = upper (unicode_upper W') (strip (message_text ev'))"
      and g: "fst (get_aviation_weather W icao_code) = fst (get_aviation_weather W' icao_code)"
  proof -
    obtain m' t' where p: "fst (get_aviation_weather W' icao_code) = (m', t')"
      by (cases "fst (get_aviation_weather W' icao_code)")
    with g have q: "fst (get_aviation_weather W icao_code) = (m', t')"
      by simp
    from a [OF m u q] a [OF m u' p] show ?thesis
      by simp
  qed
  have c: "take (length icao_code) (drop 5 (header_line icao_code)) = icao_code"
    by (simp add: header_line_def str_def)
  have d: "two_sections icao_code observation forecast =
     [0x2708, 0xFE0F, 32, 42, 42] @ icao_code @
     [42, 42, 32, 0x822A, 0x7A7A, 0x6C23, 0x8C61, 0x5831, 0x544A, 32, 40, 65, 118, 105,
      97, 116, 105, 111, 110, 32, 87, 101, 97, 116, 104, 101, 114, 32, 82, 101, 112,
      111, 114, 116, 41, 10] @
     [10] @
     [45, 45, 45, 32, 0x89C0, 0x6E2C, 0x5831, 0x544A, 32, 40, 77, 69, 84, 65, 82, 41,
      32, 45, 45, 45] @
     [10] @ observation @ [10] @
     [10, 45, 45, 45, 32, 0x9810, 0x5831, 32, 40, 84, 65, 70, 41, 32, 45, 45, 45] @
     [10] @ forecast"
    by (simp add: two_sections_def header_line_def metar_title_def taf_title_def str_def NL_def)
  have e: "metar_not_found icao_code =
     [0x274C, 32, 0x627E, 0x4E0D, 0x5230, 32] @ icao_code @
     [32, 0x7684, 0x6700, 0x65B0, 32, 77, 69, 84, 65, 82, 32, 0x8CC7, 0x6599, 0x3002]"
    by (simp add: metar_not_found_def str_def)
  have f: "taf_not_found icao_code =
     [0x274C, 32, 0x627E, 0x4E0D, 0x5230, 32] @ icao_code @
     [32, 0x7684, 0x6700, 0x65B0, 32, 84, 65, 70, 32, 0x8CC7, 0x6599, 0x3002]"
    by (simp add: taf_not_found_def str_def)
  from a [of W ev metar taf] b format_reply_truthy [of metar taf icao_code] c d e f
  show ?thesis
    by blast
qed

theorem reply_is_function_of_triple_witness:
  "reply_texts (snd (handle_message
      (example_world (Responds \<lparr>status_code = 200, resp_text = metar_body\<rparr>)
                     (Responds \<lparr>status_code = 200, resp_text = one_line_body\<rparr>))
      \<lparr>reply_token = str ''token'', message_text = str ''RCTP''\<rparr>)) =
     [[0x2708, 0xFE0F, 32, 42, 42, 82, 67, 84, 80, 42, 42, 32, 0x822A, 0x7A7A, 0x6C23,
      0x8C61, 0x5831, 0x544A, 32, 40, 65, 118, 105, 97, 116, 105, 111, 110, 32, 87, 101,
      97, 116, 104, 101, 114, 32, 82, 101, 112, 111, 114, 116, 41, 10, 10, 45, 45, 45,
      32, 0x89C0, 0x6E2C, 0x5831, 0x544A, 32, 40, 77, 69, 84, 65, 82, 41, 32, 45, 45,
      45, 10, 82, 67, 84, 80, 32, 48, 49, 48, 48, 48, 48, 90, 32, 48, 53, 48, 49, 48,
      75, 84, 10, 10, 45, 45, 45, 32, 0x9810, 0x5831, 32, 40, 84, 65, 70, 41, 32, 45,
      45, 45, 10, 0x274C, 32, 0x627E, 0x4E0D, 0x5230, 32, 82, 67, 84, 80, 32, 0x7684,
      0x6700, 0x65B0, 32, 84, 65, 70, 32, 0x8CC7, 0x6599, 0x3002]]"
proof -
  let ?c = "str ''RCTP''"
  let ?m = "\<lparr>status_code = 200, resp_text = metar_body\<rparr>"
  let ?t = "\<lparr>status_code = 200, resp_text = one_line_body\<rparr>"
  let ?W = "example_world (Responds ?m) (Responds ?t)"
  let ?ev = "\<lparr>reply_token = str ''token'', message_text = str ''RCTP''\<rparr>"
  let ?d = "str ''RCTP 010000Z 05010KT''"
  note t = reply_is_function_of_triple [of ?c ?W ?ev "Some ?d" "[]" ?W ?ev ?d "taf_not_found ?c"]
  have ok: "\<not> is_http_error ?m" "\<not> is_http_error ?t"
    by (simp_all add: is_http_error_def)
  have d: "truthy ?d"
    by (simp add: truthy_def str_def)
  from gaw_both_respond [OF example_world_metar ok(1) example_world_taf ok(2)] d
  have g: "fst (get_aviation_weather ?W ?c) = (Some ?d, [])"
    by (simp add: data_line_one_line_body data_line_metar_body)
  have u: "?c = upper (unicode_upper ?W) (strip (message_text ?ev))"
    by (simp add: unicode_upper_example_world upper_strip_RCTP)
  have h: "re_fullmatch_icao ?c \<and> ?c = upper (unicode_upper ?W) (strip (message_text ?ev)) \<and>
           fst (get_aviation_weather ?W ?c) = (Some ?d, [])"
    using fullmatch_RCTP u g by (intro conjI)
  have tr: "truthy_opt (Some ?d) \<or> truthy []"
    using d by simp
  from t h have 1: "reply_texts (snd (handle_message ?W ?ev)) = [format_reply ?c (Some ?d) []]"
    by blast
  from t tr have "format_reply ?c (Some ?d) [] =
        two_sections ?c (case Some ?d of None \<Rightarrow> metar_not_found ?c
                          | Some m \<Rightarrow> if truthy m then m else metar_not_found ?c)
          (if truthy [] then [] else taf_not_found ?c)"
    by blast
  with d have 2: "format_reply ?c (Some ?d) [] = two_sections ?c ?d (taf_not_found ?c)"
    by (simp add: truthy_def)
  from t have 3: "two_sections ?c ?d (taf_not_found ?c) =
     [0x2708, 0xFE0F, 32, 42, 42] @ ?c @
     [42, 42, 32, 0x822A, 0x7A7A, 0x6C23, 0x8C61, 0x5831, 0x544A, 32, 40, 65, 118, 105,
      97, 116, 105, 111, 110, 32, 87, 101, 97, 116, 104, 101, 114, 32, 82, 101, 112,
      111, 114, 116, 41, 10] @
     [10] @
     [45, 45, 45, 32, 0x89C0, 0x6E2C, 0x5831, 0x544A, 32, 40, 77, 69, 84, 65, 82, 41,
      32, 45, 45, 45] @
     [10] @ ?d @ [10] @
     [10, 45, 45, 45, 32, 0x9810, 0x5831, 32, 40, 84, 65, 70, 41, 32, 45, 45, 45] @
     [10] @ taf_not_found ?c"
    by blast
  from t have 4: "taf_not_found ?c =
     [0x274C, 32, 0x627E, 0x4E0D, 0x5230, 32] @ ?c @
     [32, 0x7684, 0x6700, 0x65B0, 32, 84, 65, 70, 32, 0x8CC7, 0x6599, 0x3002]"
    by blast
  from 3 4 have 5: "two_sections ?c ?d (taf_not_found ?c) =
     [0x2708, 0xFE0F, 32, 42, 42, 82, 67, 84, 80, 42, 42, 32, 0x822A, 0x7A7A, 0x6C23,
      0x8C61, 0x5831, 0x544A, 32, 40, 65, 118, 105, 97, 116, 105, 111, 110, 32, 87, 101,
      97, 116, 104, 101, 114, 32, 82, 101, 112, 111, 114, 116, 41, 10, 10, 45, 45, 45,
      32, 0x89C0, 0x6E2C, 0x5831, 0x544A, 32, 40, 77, 69, 84, 65, 82, 41, 32, 45, 45,
      45, 10, 82, 67, 84, 80, 32, 48, 49, 48, 48, 48, 48, 90, 32, 48, 53, 48, 49, 48,
      75, 84, 10, 10, 45, 45, 45, 32, 0x9810, 0x5831, 32, 40, 84, 65, 70, 41, 32, 45,
      45, 45, 10, 0x274C, 32, 0x627E, 0x4E0D, 0x5230, 32, 82, 67, 84, 80, 32, 0x7684,
      0x6700, 0x65B0, 32, 84, 65, 70, 32, 0x8CC7, 0x6599, 0x3002]"
    by (simp add: str_def)
  show ?thesis
    by (simp only: 1 2 5)
qed

section \<open>Properties of the endpoint\<close>










end
